theory Spec2Isabelle
  imports Complex_Main "HOL-Library.Sublist" "HOL-Library.Option_ord" "HOL-Library.AList"
begin

section \<open>Exceptions\<close>

text \<open>
  The module is Python 2 code. An exception object is modelled by its class and its
  message. \<open>SystemExit\<close> and \<open>KeyboardInterrupt\<close> derive from
  \<open>BaseException\<close> only; every other class used here derives from
  \<open>Exception\<close>, which is what a clause \<^verbatim>\<open>except Exception\<close> catches.
\<close>

datatype exc_class =
  KeyError | ValueError | TypeError | AttributeError | AssertionError | RuntimeError
  | SystemExit | KeyboardInterrupt

datatype exn = Exn (exc_class_of: exc_class) (message: string)

fun is_Exception :: "exn \<Rightarrow> bool" where
  "is_Exception (Exn SystemExit _) = False"
| "is_Exception (Exn KeyboardInterrupt _) = False"
| "is_Exception (Exn _ _) = True"

section \<open>Provider: dependency injection by parameter name\<close>

text \<open>
  A callable is what \<open>Provider.invoke\<close> sees of it: the parameter names that
  \<^verbatim>\<open>inspect.getargspec(func)[0]\<close> lists (for a bound method they start with the
  receiver), and what the call \<^verbatim>\<open>func(**kwargs)\<close> does: it runs on a state \<open>'s\<close>
  (everything the body can read and write) and either raises or returns a value. An
  argument-binding \<open>TypeError\<close> of the call is a raise of \<open>call\<close>.
\<close>

record ('v, 's, 'r) callable =
  argspec :: "string list"
  call :: "(string \<rightharpoonup> 'v) \<Rightarrow> 's \<Rightarrow> (exn + 'r) \<times> 's"

text \<open>The field \<open>own_services\<close> is the attribute \<^verbatim>\<open>_services\<close> of the source.\<close>

record 'v Provider =
  own_services :: "string \<rightharpoonup> 'v"

definition Provider_init :: "'v Provider" where
  "Provider_init = \<lparr>own_services = Map.empty\<rparr>"

text \<open>
  \<^verbatim>\<open>s = pyblish._registered_services.copy(); s.update(self._services)\<close>: the
  provider's own bindings win over the registered ones.
\<close>

definition services :: "(string \<rightharpoonup> 'v) \<Rightarrow> 'v Provider \<Rightarrow> (string \<rightharpoonup> 'v)" where
  "services registered_services self = registered_services ++ own_services self"

definition args :: "('v, 's, 'r) callable \<Rightarrow> string list" where
  "args func = filter (\<lambda>a. a \<notin> set [''self'', ''cls'']) (argspec func)"

text \<open>
  The spec's words for the names \<open>invoke\<close> looks at, "the callable's declared parameter
  names (excluding the implicit receiver parameter)": the receiver of a bound method is
  the first name that \<^verbatim>\<open>getargspec\<close> lists, whatever it is called, and a function that
  is not bound has none. \<open>bound\<close> says which of the two the callable is.
\<close>

definition spec_declared_parameters :: "bool \<Rightarrow> ('v, 's, 'r) callable \<Rightarrow> string list" where
  "spec_declared_parameters bound func = (if bound then drop 1 (argspec func) else argspec func)"

definition inject :: "string \<Rightarrow> 'v \<Rightarrow> 'v Provider \<Rightarrow> 'v Provider" where
  "inject name obj self = self\<lparr>own_services := (own_services self)(name \<mapsto> obj)\<rparr>"

definition invoke ::
  "(string \<rightharpoonup> 'v) \<Rightarrow> 'v Provider \<Rightarrow> ('v, 's, 'r) callable \<Rightarrow> 's \<Rightarrow> (exn + 'r) \<times> 's" where
  "invoke registered_services self func s =
     (let svc = services registered_services self in
      if \<not> list_all (\<lambda>arg. arg \<in> dom svc) (args func)
      then (Inl (Exn KeyError ''Unavailable service requested.''), s)
      else (let kwargs = svc |` {k. k \<in> set (args func)} in call func kwargs s))"

section \<open>Plug-in classes\<close>

text \<open>
  A plug-in class is a descriptor. \<open>ident\<close> is the identity of the class object
  (classes compare by identity), \<open>cls_name\<close> its \<^verbatim>\<open>__name__\<close>, and \<open>bases\<close> the stage
  classes among its ancestors, so that \<^verbatim>\<open>issubclass(plugin, Selector)\<close> is
  \<open>Selector \<in> set (bases plugin)\<close>; a class that derives from \<open>Plugin\<close> directly
  has none. \<open>order\<close> is \<open>None\<close> when unset. \<open>requires\<close> is any Python value; only
  whether it is a string matters to the code.
\<close>

datatype stage = Selector | Validator | Extractor | Conformer

datatype requires_val = RequiresStr string | RequiresOther

record plugin =
  ident :: nat
  cls_name :: string
  bases :: "stage list"
  hosts :: "string list"
  families :: "string list"
  version :: "nat \<times> nat \<times> nat"
  order :: "rat option"
  optional :: bool
  requires :: requires_val

text \<open>
  What can be handed to the registry or found in a module: a class derived from
  \<open>Plugin\<close>, another class, a callable that is no class (both with their
  \<^verbatim>\<open>__name__\<close>), or an object that is not callable.
\<close>

datatype candidate =
  PluginClass plugin | OtherClass string | Function string | NotCallable

fun name_of :: "candidate \<Rightarrow> string option" where
  "name_of (PluginClass p) = Some (cls_name p)"
| "name_of (OtherClass n) = Some n"
| "name_of (Function n) = Some n"
| "name_of NotCallable = None"

section \<open>Entities: AbstractEntity, Instance, Context\<close>

text \<open>
  \<open>AbstractEntity\<close> is a list (its members) with a dictionary \<^verbatim>\<open>_data\<close>
  (\<open>data_store\<close>). An \<open>Instance\<close> adds \<open>name\<close> and \<open>parent\<close>; the parent is a
  reference, modelled by the identity \<open>ctx_id\<close> of the entity referred to. The
  constructor asserts that the name is a string, so \<open>name\<close> is one.
\<close>

record ('m, 'v) AbstractEntity =
  members :: "'m list"
  data_store :: "string \<rightharpoonup> 'v"

record Instance = "(nat, string) AbstractEntity" +
  name :: string
  parent :: "nat option"

text \<open>
  \<open>name_val\<close> is what \<^verbatim>\<open>getattr(other, "name", None)\<close> can give: \<open>None\<close>, a
  string, or a value of another type. An object that is not an Instance has an identity
  and possibly a \<open>name\<close> attribute.
\<close>

datatype name_val = NoneVal | StrVal string | OtherVal

datatype pyobj = InstanceObj Instance | OtherObj nat "name_val option"

fun getattr_name :: "pyobj \<Rightarrow> name_val" where
  "getattr_name (InstanceObj i) = StrVal (name i)"
| "getattr_name (OtherObj _ None) = NoneVal"
| "getattr_name (OtherObj _ (Some v)) = v"

text \<open>\<^verbatim>\<open>Instance.__eq__\<close> and \<^verbatim>\<open>Instance.__ne__\<close>.\<close>

definition Instance_eq :: "Instance \<Rightarrow> pyobj \<Rightarrow> bool" where
  "Instance_eq self other = (StrVal (name self) = getattr_name other)"

definition Instance_ne :: "Instance \<Rightarrow> pyobj \<Rightarrow> bool" where
  "Instance_ne self other = (StrVal (name self) \<noteq> getattr_name other)"

text \<open>
  Python's \<^verbatim>\<open>a == b\<close> on these objects: the left operand's \<^verbatim>\<open>__eq__\<close> if it is an
  Instance, else the right operand's reflected \<^verbatim>\<open>__eq__\<close> if that is an Instance, else
  identity. \<^verbatim>\<open>other in self\<close> on a list compares \<^verbatim>\<open>other == item\<close> for each item.
\<close>

fun py_eq :: "pyobj \<Rightarrow> pyobj \<Rightarrow> bool" where
  "py_eq (InstanceObj a) b = Instance_eq a b"
| "py_eq (OtherObj i v) (InstanceObj b) = Instance_eq b (OtherObj i v)"
| "py_eq (OtherObj i _) (OtherObj j _) = (i = j)"

definition add ::
  "('m \<Rightarrow> 'm \<Rightarrow> bool) \<Rightarrow> 'm \<Rightarrow> ('m, 'v, 'z) AbstractEntity_scheme \<Rightarrow> ('m, 'v, 'z) AbstractEntity_scheme" where
  "add eq other self =
     (if \<not> list_ex (\<lambda>item. eq other item) (members self)
      then self\<lparr>members := members self @ [other]\<rparr>
      else self)"

text \<open>
  \<^verbatim>\<open>AbstractEntity.data(key)\<close> with the default \<open>None\<close>, \<^verbatim>\<open>set_data\<close> and
  \<^verbatim>\<open>has_data\<close>. An Instance overrides \<open>data\<close>: under the key \<open>name\<close>, when the
  data holds nothing, it gives the instance's name (\<open>Instance_data\<close>).
\<close>

definition data :: "string \<Rightarrow> ('m, 'v, 'z) AbstractEntity_scheme \<Rightarrow> 'v option" where
  "data key self = data_store self key"

definition Instance_data :: "string \<Rightarrow> Instance \<Rightarrow> string option" where
  "Instance_data key self =
     (let v = data key self in
      if key = ''name'' \<and> v = None then Some (name self) else v)"

definition set_data ::
  "string \<Rightarrow> 'v \<Rightarrow> ('m, 'v, 'z) AbstractEntity_scheme \<Rightarrow> ('m, 'v, 'z) AbstractEntity_scheme" where
  "set_data key v self = self\<lparr>data_store := (data_store self)(key \<mapsto> v)\<rparr>"

definition has_data :: "string \<Rightarrow> ('m, 'v, 'z) AbstractEntity_scheme \<Rightarrow> bool" where
  "has_data key self = (key \<in> dom (data_store self))"

text \<open>
  A Result is the dictionary \<open>_process\<close> builds. The values a Context keeps in its
  data are a list of results, \<open>None\<close>, or something else.
\<close>

record result =
  success :: bool
  res_plugin :: plugin
  res_instance :: "Instance option"
  error :: "exn option"
  records :: "string list"
  duration :: "rat option"

datatype pyval = ResultList "result list" | PyNone | Text string

record Context = "(pyobj, pyval) AbstractEntity" +
  ctx_id :: nat

text \<open>
  \<^verbatim>\<open>Instance.__init__(name, parent)\<close> for a parent that is a Context or \<open>None\<close>. The
  parent is mutated by \<^verbatim>\<open>parent.add(self)\<close>, so it is returned with the new instance.
\<close>

definition Instance_init ::
  "name_val \<Rightarrow> Context option \<Rightarrow> exn + (Instance \<times> Context option)" where
  "Instance_init nm par =
     (case nm of
        StrVal s \<Rightarrow>
          (let self = \<lparr>members = [], data_store = Map.empty, name = s,
                       parent = map_option ctx_id par\<rparr>
           in Inr (self, map_option (add py_eq (InstanceObj self)) par))
      | _ \<Rightarrow> Inl (Exn AssertionError []))"

definition create_instance :: "name_val \<Rightarrow> Context \<Rightarrow> exn + (Instance \<times> Context)" where
  "create_instance nm self =
     (case Instance_init nm (Some self) of
        Inl e \<Rightarrow> Inl e
      | Inr (inst, par) \<Rightarrow> Inr (inst, case par of Some c \<Rightarrow> c | None \<Rightarrow> self))"

section \<open>The execution engine\<close>

text \<open>
  The services a provider hands out: the context (a reference to the one Context of the
  run, which is part of the state the plug-in runs on), the instance or \<open>None\<close>, or an
  object registered under a name.
\<close>

datatype service = ContextRef | InstanceArg "Instance option" | Registered nat

text \<open>
  What a plug-in's code runs on: the context, which it may change through the injected
  reference, and the records that the \<^verbatim>\<open>MessageHandler\<close> attached for the call
  collects.
\<close>

record world =
  context_of :: Context
  log_records :: "string list"

text \<open>
  A plug-in class as the engine uses it: its descriptor, whether it has the legacy
  attributes that \<open>process\<close> looks for, what calling the class with no argument does
  (\<open>init\<close>: \<open>Some e\<close> when the constructor raises \<open>e\<close>), and the bound method
  \<^verbatim>\<open>process\<close> of the object it makes.
\<close>

record plugin_class = plugin +
  has_process_instance :: bool
  has_process_context :: bool
  init :: "exn option"
  process_method :: "(service, world, unit) callable"

text \<open>
  Modelled from the spec: \<^verbatim>\<open>pyblish.lib.extract_traceback\<close> is not among the sources.
  The spec has the failure captured "with its originating trace information
  preserved": the helper annotates the exception object and returns; the annotation is
  not part of \<open>exn\<close>.
\<close>

definition extract_traceback :: "exn \<Rightarrow> exn" where
  "extract_traceback e = e"

text \<open>Lines 263-264 of \<open>_process\<close>: the \<^verbatim>\<open>"results"\<close> entry is made on first use.\<close>

definition ensure_results :: "Context \<Rightarrow> Context" where
  "ensure_results context =
     (if ''results'' \<notin> dom (data_store context)
      then set_data ''results'' (ResultList []) context
      else context)"

text \<open>Lines 277-279: a new provider with the context and the instance injected.\<close>

definition new_provider :: "Instance option \<Rightarrow> service Provider" where
  "new_provider inst =
     inject ''instance'' (InstanceArg inst) (inject ''context'' ContextRef Provider_init)"

text \<open>
  \<^verbatim>\<open>context.data("results").append(result)\<close>: \<open>data\<close> gives \<open>None\<close> for a missing
  key, and only a list has \<^verbatim>\<open>append\<close>.
\<close>

definition append_result :: "result \<Rightarrow> Context \<Rightarrow> exn + Context" where
  "append_result r context =
     (case data ''results'' context of
        Some (ResultList rs) \<Rightarrow> Inr (set_data ''results'' (ResultList (rs @ [r])) context)
      | _ \<Rightarrow> Inl (Exn AttributeError ''append''))"

text \<open>
  \<open>_process\<close> of the source (\<open>process_inner\<close> here). \<open>clock\<close> holds the two readings of
  \<^verbatim>\<open>time.time()\<close>. The constructor runs before the \<^verbatim>\<open>try\<close>; the \<^verbatim>\<open>except Exception\<close>
  clause catches what \<open>is_Exception\<close> holds of.
\<close>

definition process_inner ::
  "(string \<rightharpoonup> service) \<Rightarrow> rat \<times> rat \<Rightarrow> plugin_class \<Rightarrow> Context \<Rightarrow> Instance option
     \<Rightarrow> (exn + result) \<times> Context" where
  "process_inner registered_services clock plugin context inst =
     (let context1 = ensure_results context;
          result0 = \<lparr>success = False, res_plugin = plugin.truncate plugin,
                     res_instance = inst, error = None, records = [], duration = None\<rparr>
      in case init plugin of
           Some e \<Rightarrow> (Inl e, context1)
         | None \<Rightarrow>
            (let provider = new_provider inst;
                 (outcome, w) = invoke registered_services provider (process_method plugin)
                                  \<lparr>context_of = context1, log_records = []\<rparr>;
                 caught = (case outcome of
                             Inr _ \<Rightarrow> Inr (result0\<lparr>success := True\<rparr>)
                           | Inl e \<Rightarrow> if is_Exception e
                                      then Inr (result0\<lparr>error := Some (extract_traceback e)\<rparr>)
                                      else Inl e)
             in case caught of
                  Inl e \<Rightarrow> (Inl e, context_of w)
                | Inr result1 \<Rightarrow>
                   (let result2 = result1\<lparr>records := records result1 @ log_records w,
                                           duration := Some ((snd clock - fst clock) * 1000)\<rparr>
                    in case append_result result2 (context_of w) of
                         Inl e \<Rightarrow> (Inl e, context_of w)
                       | Inr context2 \<Rightarrow> (Inr result2, context2))))"

text \<open>
  \<open>process\<close>: a class with a legacy method name goes to \<^verbatim>\<open>pyblish.legacy.process_1_0\<close>,
  which is not among the sources and is a parameter here.
\<close>

definition process ::
  "(plugin_class \<Rightarrow> Context \<Rightarrow> Instance option \<Rightarrow> (exn + result) \<times> Context)
     \<Rightarrow> (string \<rightharpoonup> service) \<Rightarrow> rat \<times> rat \<Rightarrow> plugin_class \<Rightarrow> Context \<Rightarrow> Instance option
     \<Rightarrow> (exn + result) \<times> Context" where
  "process process_1_0 registered_services clock plugin context inst =
     (if has_process_instance plugin \<or> has_process_context plugin
      then process_1_0 plugin context inst
      else process_inner registered_services clock plugin context inst)"

section \<open>The registry\<close>




text \<open>
  The registry holds every object under its own name: true of the empty registry and
  kept by \<open>register_plugin\<close> and \<open>deregister_plugin\<close>.
\<close>

definition keyed_by_name :: "(string \<times> candidate) list \<Rightarrow> bool" where
  "keyed_by_name registered = list_all (\<lambda>(k, v). name_of v = Some k) registered"

text \<open>
  \<open>register_plugin_path\<close> gives what it returns (\<open>None\<close> is the value of
  \<^verbatim>\<open>log.warning\<close>), the warnings it logs and the new list of paths.
\<close>

definition register_plugin_path ::
  "string \<Rightarrow> string list \<Rightarrow> string option \<times> string list \<times> string list" where
  "register_plugin_path path registered_paths =
     (if path \<in> set registered_paths
      then (None, [''Path already registered: '' @ path], registered_paths)
      else (Some path, [], registered_paths @ [path]))"

definition deregister_plugin_path :: "string \<Rightarrow> string list \<Rightarrow> exn + string list" where
  "deregister_plugin_path path registered_paths =
     (if path \<in> set registered_paths
      then Inr (remove1 path registered_paths)
      else Inl (Exn ValueError ''list.remove(x): x not in list''))"

definition deregister_all_paths :: "string list \<Rightarrow> string list" where
  "deregister_all_paths registered_paths = []"

text \<open>
  \<open>plugin_paths\<close>: the registered, configured and environment paths, the first
  occurrence of each kept.
\<close>

fun collect_paths :: "string list \<Rightarrow> string list \<Rightarrow> string list" where
  "collect_paths [] paths = paths"
| "collect_paths (path # rest) paths =
     (if path \<in> set paths then collect_paths rest paths
      else collect_paths rest (paths @ [path]))"

definition plugin_paths :: "string list \<Rightarrow> string list \<Rightarrow> string list \<Rightarrow> string list" where
  "plugin_paths registered_paths configured_paths environment_paths =
     collect_paths (registered_paths @ configured_paths @ environment_paths) []"

section \<open>Hosts, validity, ordering\<close>

text \<open>
  \<open>current_host\<close> reads \<^verbatim>\<open>os.path.basename(sys.executable).lower()\<close>, the parameter
  \<open>exe\<close> here; \<^verbatim>\<open>"python" in executable\<close> is a substring test. \<open>CHR 0x22\<close> is the
  quotation mark that the message puts around the executable's name.
\<close>

definition current_host :: "string \<Rightarrow> exn + string" where
  "current_host exe =
     (if sublist ''python'' exe then Inr ''python''
      else if sublist ''maya'' exe then Inr ''maya''
      else if sublist ''nuke'' exe then Inr ''nuke''
      else if sublist ''modo'' exe then Inr ''modo''
      else if sublist ''houdini'' exe then Inr ''houdini''
      else Inl (Exn ValueError
                  (''Could not determine host from '' @ [CHR 0x22] @ exe @ [CHR 0x22])))"

text \<open>
  \<^verbatim>\<open>any(["*" in plugin.hosts, current_host() in plugin.hosts])\<close>: the list is built
  before \<^verbatim>\<open>any\<close> runs, so \<open>current_host\<close> is called whatever the first test gives,
  and nothing catches what it raises.
\<close>

definition host_is_compatible :: "string \<Rightarrow> 'a plugin_scheme \<Rightarrow> exn + bool" where
  "host_is_compatible exe plugin =
     (let wildcard = ''*'' \<in> set (hosts plugin) in
      case current_host exe of
        Inl e \<Rightarrow> Inl e
      | Inr host \<Rightarrow> Inr (list_ex (\<lambda>b. b) [wildcard, host \<in> set (hosts plugin)]))"

text \<open>
  The \<^verbatim>\<open>try\<close> block of \<open>plugin_is_valid\<close>: \<open>Some k\<close> when it raises \<^verbatim>\<open>Exception(k)\<close>.
  An empty list is what \<^verbatim>\<open>not getattr(plugin, "hosts")\<close> holds of.
\<close>

definition mandatory_fields :: "'a plugin_scheme \<Rightarrow> nat option" where
  "mandatory_fields plugin =
     (if Selector \<in> set (bases plugin) \<and> hosts plugin = [] then Some 0
      else if (Validator \<in> set (bases plugin) \<or> Extractor \<in> set (bases plugin))
              \<and> families plugin = [] \<and> hosts plugin = [] then Some 1
      else if Conformer \<in> set (bases plugin) \<and> families plugin = [] then Some 2
      else None)"

text \<open>
  \<open>plugin_is_valid\<close>: not a class, not a subclass of \<open>Plugin\<close>, \<open>requires\<close> not a
  string, or the \<^verbatim>\<open>try\<close> block raised: \<open>False\<close>. The messages it logs are left out.
\<close>

definition plugin_is_valid :: "candidate \<Rightarrow> bool" where
  "plugin_is_valid plugin =
     (case plugin of
        PluginClass p \<Rightarrow>
          (case requires p of
             RequiresOther \<Rightarrow> False
           | RequiresStr _ \<Rightarrow> (case mandatory_fields p of Some _ \<Rightarrow> False | None \<Rightarrow> True))
      | _ \<Rightarrow> False)"

text \<open>
  \<open>version_is_compatible\<close>: \<open>iscompatible\<close> is the vendored library's test of a
  requirement against the running version, a parameter here.
\<close>

definition version_is_compatible :: "(requires_val \<Rightarrow> bool) \<Rightarrow> 'a plugin_scheme \<Rightarrow> bool" where
  "version_is_compatible iscompatible plugin =
     (if \<not> iscompatible (requires plugin) then False else True)"

text \<open>
  \<^verbatim>\<open>plugins.sort(key=lambda p: p.order)\<close>: Python's sort is stable, as \<open>sort_key\<close>
  is. \<open>py2_le\<close> is Python 2's \<^verbatim>\<open><=\<close> on the values of \<open>order\<close>: \<open>None\<close> is below
  every number and no comparison raises. It is the order of \<open>rat option\<close>, which
  \<open>sort_key\<close> sorts by.
\<close>

fun py2_le :: "rat option \<Rightarrow> rat option \<Rightarrow> bool" where
  "py2_le None _ = True"
| "py2_le (Some _) None = False"
| "py2_le (Some a) (Some b) = (a \<le> b)"

definition sort_plugins :: "'a plugin_scheme list \<Rightarrow> 'a plugin_scheme list" where
  "sort_plugins plugins = sort_key order plugins"

section \<open>Discovery\<close>

text \<open>
  What \<open>discover\<close> reads from outside: the executable's name, the version test, the
  file system and path functions, the regular expressions of the configuration
  (\<open>config_regex\<close> by type), \<^verbatim>\<open>re.match\<close>, the configured and environment paths, and
  what importing a module from a directory gives: an exception, or the module's
  attributes as \<^verbatim>\<open>dir(module)\<close> lists them.
\<close>

record env =
  executable :: string
  iscompatible :: "requires_val \<Rightarrow> bool"
  configured_paths :: "string list"
  environment_paths :: "string list"
  config_regex :: "string \<Rightarrow> string"
  re_match :: "string \<Rightarrow> string \<Rightarrow> bool"
  normpath :: "string \<Rightarrow> string"
  isdir :: "string \<Rightarrow> bool"
  listdir :: "string \<Rightarrow> string list"
  join :: "string \<Rightarrow> string \<Rightarrow> string"
  isfile :: "string \<Rightarrow> bool"
  splitext :: "string \<Rightarrow> string"
  import_module :: "string \<Rightarrow> string \<Rightarrow> exn + (string \<times> candidate) list"

definition pattern_keys :: "string list" where
  "pattern_keys = [''validators'', ''extractors'', ''selectors'', ''integrators'',
                   ''collectors'', ''conformers'']"

definition types :: "(string \<times> stage) list" where
  "types = [(''validators'', Validator), (''extractors'', Extractor),
            (''selectors'', Selector), (''integrators'', Conformer),
            (''collectors'', Selector), (''conformers'', Conformer)]"

text \<open>The loop over \<^verbatim>\<open>dir(module)\<close>: a later class of the same name replaces an earlier.\<close>

fun scan_module ::
  "(string \<times> candidate) list \<Rightarrow> (string \<times> candidate) list \<Rightarrow> (string \<times> candidate) list" where
  "scan_module [] discovered = discovered"
| "scan_module ((attr, obj) # rest) discovered =
     (if take 1 attr = ''_'' then scan_module rest discovered
      else case obj of
             PluginClass p \<Rightarrow> scan_module rest (AList.update (cls_name p) obj discovered)
           | _ \<Rightarrow> scan_module rest discovered)"

text \<open>The loop over the files of one directory; a failed import is skipped.\<close>

fun scan_files ::
  "env \<Rightarrow> string list \<Rightarrow> string \<Rightarrow> string list \<Rightarrow> (string \<times> candidate) list
     \<Rightarrow> exn + (string \<times> candidate) list" where
  "scan_files e types_to_check path [] discovered = Inr discovered"
| "scan_files e types_to_check path (fname # rest) discovered =
     (if \<not> list_ex (\<lambda>t. re_match e (config_regex e t) fname) types_to_check
      then scan_files e types_to_check path rest discovered
      else if \<not> isfile e (join e path fname)
      then scan_files e types_to_check path rest discovered
      else case import_module e path (splitext e fname) of
             Inl err \<Rightarrow>
               (if is_Exception err then scan_files e types_to_check path rest discovered
                else Inl err)
           | Inr loaded \<Rightarrow>
               scan_files e types_to_check path rest (scan_module loaded discovered))"

fun scan_paths ::
  "env \<Rightarrow> string list \<Rightarrow> string list \<Rightarrow> (string \<times> candidate) list
     \<Rightarrow> exn + (string \<times> candidate) list" where
  "scan_paths e types_to_check [] discovered = Inr discovered"
| "scan_paths e types_to_check (p # rest) discovered =
     (let path = normpath e p in
      if \<not> isdir e path then scan_paths e types_to_check rest discovered
      else case scan_files e types_to_check path (listdir e path) discovered of
             Inl err \<Rightarrow> Inl err
           | Inr discovered' \<Rightarrow> scan_paths e types_to_check rest discovered')"

text \<open>
  The filter loop over \<^verbatim>\<open>discovered_plugins.items()\<close>; \<open>plugins\<close> is the list built so
  far. Python 2 fixes no order for the items of a dictionary; the association list's
  order stands for it.
\<close>

fun filter_discovered ::
  "env \<Rightarrow> string list \<Rightarrow> string option \<Rightarrow> (string \<times> candidate) list \<Rightarrow> plugin list
     \<Rightarrow> exn + plugin list" where
  "filter_discovered e types_to_check regex [] plugins = Inr plugins"
| "filter_discovered e types_to_check regex ((nm, cand) # rest) plugins =
     (if \<not> plugin_is_valid cand then filter_discovered e types_to_check regex rest plugins
      else case cand of
        PluginClass plugin \<Rightarrow>
          (if \<not> version_is_compatible (iscompatible e) plugin
           then filter_discovered e types_to_check regex rest plugins
           else case host_is_compatible (executable e) plugin of
                  Inl err \<Rightarrow> Inl err
                | Inr compatible \<Rightarrow>
                   (if \<not> compatible
                    then filter_discovered e types_to_check regex rest plugins
                    else if plugin \<in> set plugins
                    then filter_discovered e types_to_check regex rest plugins
                    else if \<not> list_ex (\<lambda>t. case map_of types t of
                                                 Some st \<Rightarrow> st \<in> set (bases plugin)
                                               | None \<Rightarrow> False) types_to_check
                    then filter_discovered e types_to_check regex rest plugins
                    else if (case regex of None \<Rightarrow> True | Some r \<Rightarrow> re_match e r nm)
                    then filter_discovered e types_to_check regex rest (plugins @ [plugin])
                    else filter_discovered e types_to_check regex rest plugins))
      | _ \<Rightarrow> filter_discovered e types_to_check regex rest plugins)"

definition discover ::
  "env \<Rightarrow> string list \<Rightarrow> (string \<times> candidate) list
     \<Rightarrow> string option \<Rightarrow> string option \<Rightarrow> string list option \<Rightarrow> exn + plugin list" where
  "discover e registered_paths registered_plugins type regex paths =
     (if (case type of None \<Rightarrow> False | Some t \<Rightarrow> t \<notin> set pattern_keys)
      then Inl (Exn ValueError (''Type not recognised: '' @ (case type of Some t \<Rightarrow> t | None \<Rightarrow> [])))
      else
        (let discovered_plugins = registered_plugins;
             types_to_check = (case type of Some t \<Rightarrow> [t] | None \<Rightarrow> pattern_keys);
             search = (case paths of
                         Some (p # ps) \<Rightarrow> p # ps
                       | _ \<Rightarrow> plugin_paths registered_paths (configured_paths e)
                                (environment_paths e))
         in case scan_paths e types_to_check search discovered_plugins of
              Inl err \<Rightarrow> Inl err
            | Inr discovered \<Rightarrow>
               (case filter_discovered e types_to_check regex discovered [] of
                  Inl err \<Rightarrow> Inl err
                | Inr plugins \<Rightarrow> Inr (sort_plugins plugins))))"

section \<open>Concrete plug-ins and contexts\<close>

text \<open>
  \<open>base_plugin\<close> has the attribute values of the class \<open>Plugin\<close> itself. \<open>raising e\<close>
  is a plug-in whose \<^verbatim>\<open>process(self, context)\<close> raises \<open>e\<close>; \<open>tampering\<close> is one whose
  \<^verbatim>\<open>process(self, context)\<close> empties the context's data and then raises.
\<close>

definition base_plugin :: plugin where
  "base_plugin = \<lparr>ident = 0, cls_name = ''MyPlugin'', bases = [], hosts = [''*''],
                   families = [''*''], version = (0, 0, 0), order = None, optional = False,
                   requires = RequiresStr ''pyblish>=1''\<rparr>"

definition raising :: "exn \<Rightarrow> plugin_class" where
  "raising e = plugin.extend base_plugin
     \<lparr>has_process_instance = False, has_process_context = False, init = None,
      process_method = \<lparr>argspec = [''self'', ''context''], call = (\<lambda>kwargs w. (Inl e, w))\<rparr>\<rparr>"


definition empty_context :: Context where
  "empty_context = \<lparr>members = [], data_store = Map.empty, ctx_id = 0\<rparr>"

definition no_legacy ::
  "plugin_class \<Rightarrow> Context \<Rightarrow> Instance option \<Rightarrow> (exn + result) \<times> Context" where
  "no_legacy plugin context inst = (Inl (Exn RuntimeError ''legacy''), context)"

text \<open>
  A method \<^verbatim>\<open>f(self, context, time)\<close> that returns the two services it is given and
  counts its calls in the state, and a bound method \<^verbatim>\<open>g(this, context)\<close> whose receiver
  is not called \<open>self\<close>.
\<close>

definition count_calls :: "(nat, nat, nat option \<times> nat option) callable" where
  "count_calls = \<lparr>argspec = [''self'', ''context'', ''time''],
                   call = (\<lambda>kwargs n. (Inr (kwargs ''context'', kwargs ''time''), Suc n))\<rparr>"

definition this_method :: "(nat, nat, nat option) callable" where
  "this_method = \<lparr>argspec = [''this'', ''context''],
                   call = (\<lambda>kwargs n. (Inr (kwargs ''context''), Suc n))\<rparr>"

text \<open>
  An environment with one search path, a directory holding one file that matches every
  pattern; importing it gives \<open>imported\<close>. The executable is \<open>python\<close> and every
  requirement is compatible. \<open>validator1\<close> and \<open>selector1\<close> are a Validator and a
  Selector with the attribute values of their stage classes.
\<close>

definition scanning_env :: "(exn + (string \<times> candidate) list) \<Rightarrow> env" where
  "scanning_env imported =
     \<lparr>executable = ''python'', iscompatible = (\<lambda>r. True),
      configured_paths = [''/plugins''], environment_paths = [],
      config_regex = (\<lambda>t. t), re_match = (\<lambda>r fname. True),
      normpath = (\<lambda>p. p), isdir = (\<lambda>p. p = ''/plugins''),
      listdir = (\<lambda>p. [''validate_x.py'']), join = (\<lambda>p fname. p @ ''/'' @ fname),
      isfile = (\<lambda>p. True), splitext = (\<lambda>fname. ''validate_x''),
      import_module = (\<lambda>p m. imported)\<rparr>"

definition validator1 :: plugin where
  "validator1 = base_plugin\<lparr>ident := 1, cls_name := ''ValidateNaming'', bases := [Validator],
                             order := Some 1\<rparr>"

definition selector1 :: plugin where
  "selector1 = base_plugin\<lparr>ident := 2, cls_name := ''CollectScene'', bases := [Selector],
                            order := Some 0\<rparr>"

section \<open>The provider\<close>

lemma invoke_unavailable:
  assumes "a \<in> set (args func)" and "services reg self a = None"
  shows "invoke reg self func s = (Inl (Exn KeyError ''Unavailable service requested.''), s)"
proof -
  from assms have "\<not> list_all (\<lambda>arg. arg \<in> dom (services reg self)) (args func)"
    by (auto simp: list_all_iff)
  then show ?thesis by (simp add: invoke_def Let_def)
qed

lemma invoke_available:
  assumes "set (args func) \<subseteq> dom (services reg self)"
  shows "invoke reg self func s = call func (services reg self |` set (args func)) s"
proof -
  from assms have "list_all (\<lambda>arg. arg \<in> dom (services reg self)) (args func)"
    by (auto simp: list_all_iff)
  then show ?thesis by (simp add: invoke_def Let_def)
qed

lemma args_call_update: "args (func\<lparr>call := c\<rparr>) = args func"
  by (simp add: args_def)

lemma services_lookup:
  "services reg self k = (case own_services self k of Some v \<Rightarrow> Some v | None \<Rightarrow> reg k)"
  by (simp add: services_def map_add_def)

text \<open>
  C4 as stated fails: the receiver is left out by its name, not by its place. For the
  bound method \<^verbatim>\<open>g(this, context)\<close> the only declared parameter besides the receiver is
  \<open>context\<close>, which has a service; \<open>invoke\<close> raises \<open>KeyError\<close> and does not call it.
\<close>

theorem invoke_receiver_by_name:
  "spec_declared_parameters True this_method = [''context'']
   \<and> services Map.empty (inject ''context'' 7 Provider_init) ''context'' = Some 7
   \<and> invoke Map.empty (inject ''context'' 7 Provider_init) this_method 0
       = (Inl (Exn KeyError ''Unavailable service requested.''), 0)"
  by (simp add: spec_declared_parameters_def this_method_def services_def inject_def
      Provider_init_def invoke_def args_def Let_def)

text \<open>
  C4, amended: the names \<open>invoke\<close> looks at are those \<^verbatim>\<open>getargspec\<close> lists other than
  \<open>self\<close> and \<open>cls\<close>. A service is available under a name when it is registered or
  injected into the provider, and an injected one wins. If one of the names has no
  service, \<open>invoke\<close> raises \<open>KeyError\<close> and the callable is not called: the state is
  unchanged and the outcome is the same whatever the call would do. Otherwise its
  outcome and its effect are those of one call of the callable, with keyword arguments
  that are exactly the available services under those names.
\<close>

theorem invoke_binds_by_name:
  "((\<exists>a \<in> set (args func). reg a = None \<and> own_services self a = None) \<longrightarrow>
      (\<forall>c. invoke reg self (func\<lparr>call := c\<rparr>) s
             = (Inl (Exn KeyError ''Unavailable service requested.''), s)))
   \<and> ((\<forall>a \<in> set (args func). reg a \<noteq> None \<or> own_services self a \<noteq> None) \<longrightarrow>
      (\<exists>kwargs. invoke reg self func s = call func kwargs s
          \<and> dom kwargs = set (args func)
          \<and> (\<forall>k \<in> set (args func).
                kwargs k = (case own_services self k of Some v \<Rightarrow> Some v | None \<Rightarrow> reg k))))
   \<and> args func = filter (\<lambda>a. a \<noteq> ''self'' \<and> a \<noteq> ''cls'') (argspec func)"
proof (intro conjI impI)
  assume "\<exists>a \<in> set (args func). reg a = None \<and> own_services self a = None"
  then obtain a where a: "a \<in> set (args func)" "reg a = None" "own_services self a = None"
    by blast
  then have none: "services reg self a = None" by (simp add: services_lookup)
  show "\<forall>c. invoke reg self (func\<lparr>call := c\<rparr>) s
             = (Inl (Exn KeyError ''Unavailable service requested.''), s)"
  proof
    fix c
    from a have "a \<in> set (args (func\<lparr>call := c\<rparr>))" by (simp add: args_call_update)
    then show "invoke reg self (func\<lparr>call := c\<rparr>) s
             = (Inl (Exn KeyError ''Unavailable service requested.''), s)"
      using none by (rule invoke_unavailable)
  qed
next
  assume all: "\<forall>a \<in> set (args func). reg a \<noteq> None \<or> own_services self a \<noteq> None"
  have sub: "set (args func) \<subseteq> dom (services reg self)"
  proof
    fix a assume "a \<in> set (args func)"
    with all have "reg a \<noteq> None \<or> own_services self a \<noteq> None" by blast
    then have "services reg self a \<noteq> None"
      by (auto simp: services_lookup split: option.splits)
    then show "a \<in> dom (services reg self)" by auto
  qed
  let ?kw = "services reg self |` set (args func)"
  have "invoke reg self func s = call func ?kw s" using sub by (rule invoke_available)
  moreover have "dom ?kw = set (args func)" using sub by auto
  moreover have "\<forall>k \<in> set (args func).
      ?kw k = (case own_services self k of Some v \<Rightarrow> Some v | None \<Rightarrow> reg k)"
    by (simp add: services_lookup)
  ultimately show "\<exists>kwargs. invoke reg self func s = call func kwargs s
          \<and> dom kwargs = set (args func)
          \<and> (\<forall>k \<in> set (args func).
                kwargs k = (case own_services self k of Some v \<Rightarrow> Some v | None \<Rightarrow> reg k))"
    by blast
next
  show "args func = filter (\<lambda>a. a \<noteq> ''self'' \<and> a \<noteq> ''cls'') (argspec func)"
    by (simp add: args_def)
qed

theorem invoke_binds_by_name_witness:
  "invoke [''time'' \<mapsto> 5, ''context'' \<mapsto> 1] (inject ''context'' 7 Provider_init) count_calls 0
     = (Inr (Some 7, Some 5), 1)
   \<and> invoke [''context'' \<mapsto> 1] Provider_init count_calls 0
       = (Inl (Exn KeyError ''Unavailable service requested.''), 0)"
proof -
  let ?reg = "[''time'' \<mapsto> (5::nat), ''context'' \<mapsto> 1]"
  let ?reg' = "[''context'' \<mapsto> (1::nat)]"
  let ?p = "inject ''context'' (7::nat) Provider_init"
  have args: "args count_calls = [''context'', ''time'']"
    by (simp add: args_def count_calls_def)
  have own: "own_services ?p ''context'' = Some 7" "own_services ?p ''time'' = None"
    by (simp_all add: inject_def Provider_init_def)
  have own': "own_services (Provider_init :: nat Provider) ''time'' = None"
    by (simp add: Provider_init_def)
  from invoke_binds_by_name [of count_calls ?reg ?p 0] args own
  obtain kwargs where k: "invoke ?reg ?p count_calls 0 = call count_calls kwargs 0"
    "kwargs ''context'' = Some 7" "kwargs ''time'' = Some 5" by auto
  have "call count_calls kwargs 0 = (Inr (Some 7, Some 5), 1)"
    using k(2,3) by (simp add: count_calls_def)
  with k(1) have A: "invoke ?reg ?p count_calls 0 = (Inr (Some 7, Some 5), 1)" by simp
  from invoke_binds_by_name [of count_calls ?reg' Provider_init 0] args own'
  have "\<forall>c. invoke ?reg' Provider_init (count_calls\<lparr>call := c\<rparr>) 0
          = (Inl (Exn KeyError ''Unavailable service requested.''), 0)" by auto
  then have "invoke ?reg' Provider_init (count_calls\<lparr>call := call count_calls\<rparr>) 0
          = (Inl (Exn KeyError ''Unavailable service requested.''), 0)" by blast
  then have B: "invoke ?reg' Provider_init count_calls 0
          = (Inl (Exn KeyError ''Unavailable service requested.''), 0)" by simp
  from A B show ?thesis by simp
qed

section \<open>Registered paths\<close>

lemma register_plugin_path_distinct:
  "distinct registered_paths \<Longrightarrow>
   distinct (snd (snd (register_plugin_path path registered_paths)))"
  by (simp add: register_plugin_path_def)

text \<open>
  C7: registering a path twice. After the first call the path is in the list; the
  second call leaves the list as it is, returns \<open>None\<close> and logs the warning, and the
  list holds the path exactly once (the list held it at most once before, as every list
  built by these functions does). The function has no raising branch.
\<close>

theorem register_plugin_path_twice:
  assumes "count_list registered_paths path \<le> 1"
  shows "(case register_plugin_path path registered_paths of
            (r1, w1, paths1) \<Rightarrow>
              path \<in> set paths1 \<and>
              (case register_plugin_path path paths1 of
                 (r2, w2, paths2) \<Rightarrow>
                   paths2 = paths1 \<and> count_list paths2 path = 1 \<and> r2 = None
                   \<and> w2 = [''Path already registered: '' @ path]))"
proof (cases "path \<in> set registered_paths")
  case True
  then have "count_list registered_paths path \<noteq> 0" by (simp add: count_list_0_iff)
  with assms have "count_list registered_paths path = 1" by simp
  with True show ?thesis by (simp add: register_plugin_path_def)
next
  case False
  then have "count_list registered_paths path = 0" by (simp add: count_list_0_iff)
  with False show ?thesis by (simp add: register_plugin_path_def)
qed

theorem register_plugin_path_twice_witness:
  "register_plugin_path ''/server/plugins'' [''/a'']
     = (Some ''/server/plugins'', [], [''/a'', ''/server/plugins''])
   \<and> register_plugin_path ''/server/plugins'' [''/a'', ''/server/plugins'']
       = (None, [''Path already registered: /server/plugins''], [''/a'', ''/server/plugins''])
   \<and> count_list [''/a'', ''/server/plugins''] ''/server/plugins'' = 1"
  using register_plugin_path_twice [of "[''/a'']" "''/server/plugins''"]
  by (simp add: register_plugin_path_def)

section \<open>Instances\<close>

text \<open>
  C8: two Instances are equal exactly when their names are equal, whatever their
  members, data and parent; an Instance is not equal to an object that has no \<open>name\<close>
  attribute. \<^verbatim>\<open>__ne__\<close> is the negation.
\<close>

theorem Instance_eq_by_name:
  "(Instance_eq a (InstanceObj b) \<longleftrightarrow> name a = name b)
   \<and> \<not> Instance_eq a (OtherObj i None)
   \<and> (Instance_ne a other \<longleftrightarrow> \<not> Instance_eq a other)"
  by (simp add: Instance_eq_def Instance_ne_def)

theorem Instance_eq_by_name_witness:
  "Instance_eq \<lparr>members = [1], data_store = [''family'' \<mapsto> ''rig''], name = ''hero'', parent = None\<rparr>
     (InstanceObj \<lparr>members = [], data_store = Map.empty, name = ''hero'', parent = Some 0\<rparr>)
   \<and> \<not> Instance_eq \<lparr>members = [], data_store = Map.empty, name = ''hero'', parent = None\<rparr>
         (OtherObj 3 None)"
  using Instance_eq_by_name
    [of "\<lparr>members = [1], data_store = [''family'' \<mapsto> ''rig''], name = ''hero'', parent = None\<rparr>"
        "\<lparr>members = [], data_store = Map.empty, name = ''hero'', parent = Some 0\<rparr>"]
    Instance_eq_by_name
    [of "\<lparr>members = [], data_store = Map.empty, name = ''hero'', parent = None\<rparr>" _ 3]
  by simp

text \<open>
  C10: \<open>create_instance\<close> on a context that holds an Instance of that name returns a new
  Instance (no members, no data) of that name whose parent is the context, and the
  context is as it was: \<open>add\<close> finds a member equal to the new instance.
\<close>

theorem create_instance_existing_name:
  assumes "InstanceObj j \<in> set (members c)" and "name j = n"
  shows "\<exists>i. create_instance (StrVal n) c = Inr (i, c)
            \<and> name i = n \<and> parent i = Some (ctx_id c)
            \<and> members i = [] \<and> data_store i = Map.empty"
proof -
  let ?self = "\<lparr>members = [], data_store = Map.empty, name = n, parent = Some (ctx_id c)\<rparr>"
  have "py_eq (InstanceObj ?self) (InstanceObj j)"
    using assms(2) by (simp add: Instance_eq_def)
  with assms(1) have "list_ex (\<lambda>item. py_eq (InstanceObj ?self) item) (members c)"
    unfolding list_ex_iff by blast
  then have "add py_eq (InstanceObj ?self) c = c" by (simp add: add_def)
  then have "create_instance (StrVal n) c = Inr (?self, c)"
    by (simp add: create_instance_def Instance_init_def Let_def)
  then show ?thesis by simp
qed

theorem create_instance_existing_name_witness:
  "create_instance (StrVal ''hero'')
     \<lparr>members = [InstanceObj \<lparr>members = [4], data_store = Map.empty, name = ''hero'',
                               parent = Some 9\<rparr>],
      data_store = Map.empty, ctx_id = 9\<rparr>
   = Inr (\<lparr>members = [], data_store = Map.empty, name = ''hero'', parent = Some 9\<rparr>,
          \<lparr>members = [InstanceObj \<lparr>members = [4], data_store = Map.empty, name = ''hero'',
                                    parent = Some 9\<rparr>],
           data_store = Map.empty, ctx_id = 9\<rparr>)"
  using create_instance_existing_name
    [of "\<lparr>members = [4], data_store = Map.empty, name = ''hero'', parent = Some 9\<rparr>"
        "\<lparr>members = [InstanceObj \<lparr>members = [4], data_store = Map.empty, name = ''hero'',
                                   parent = Some 9\<rparr>],
          data_store = Map.empty, ctx_id = 9\<rparr>" "''hero''"]
  by auto

section \<open>Ordering\<close>

lemma py2_le_less_eq: "py2_le a b \<longleftrightarrow> a \<le> b"
  by (cases a; cases b) simp_all

text \<open>
  C5: \<open>sort\<close> gives a list in which every plug-in's \<open>order\<close> is at most (in Python 2's
  comparison, \<open>None\<close> lowest) that of every later one, and for each value of \<open>order\<close>,
  \<open>None\<close> too, the plug-ins of that value stand in their input order; the result has
  the same plug-ins. \<open>py2_le\<close> is total: comparing two unset orders gives \<open>True\<close>.
\<close>

theorem sort_plugins_sorted_stable:
  "sorted_wrt (\<lambda>p q. py2_le (order p) (order q)) (sort_plugins plugins)
   \<and> (\<forall>k. filter (\<lambda>p. order p = k) (sort_plugins plugins) = filter (\<lambda>p. order p = k) plugins)
   \<and> set (sort_plugins plugins) = set plugins
   \<and> length (sort_plugins plugins) = length plugins
   \<and> py2_le None None"
proof -
  have "sorted (map order (sort_plugins plugins))"
    by (simp add: sort_plugins_def)
  then have "sorted_wrt (\<lambda>p q. py2_le (order p) (order q)) (sort_plugins plugins)"
    by (simp add: sorted_map py2_le_less_eq)
  moreover have "\<forall>k. filter (\<lambda>p. order p = k) (sort_plugins plugins)
                    = filter (\<lambda>p. order p = k) plugins"
    by (simp add: sort_plugins_def sort_key_stable)
  ultimately show ?thesis by (simp add: sort_plugins_def)
qed

theorem sort_plugins_sorted_stable_witness:
  "sort_plugins [base_plugin\<lparr>ident := 1, order := Some 1\<rparr>, base_plugin\<lparr>ident := 2\<rparr>,
                 base_plugin\<lparr>ident := 3, order := Some 0\<rparr>, base_plugin\<lparr>ident := 4\<rparr>,
                 base_plugin\<lparr>ident := 5, order := Some 1\<rparr>]
   = [base_plugin\<lparr>ident := 2\<rparr>, base_plugin\<lparr>ident := 4\<rparr>,
      base_plugin\<lparr>ident := 3, order := Some 0\<rparr>,
      base_plugin\<lparr>ident := 1, order := Some 1\<rparr>, base_plugin\<lparr>ident := 5, order := Some 1\<rparr>]
   \<and> length (sort_plugins [base_plugin\<lparr>ident := 1, order := Some 1\<rparr>, base_plugin\<lparr>ident := 2\<rparr>,
                 base_plugin\<lparr>ident := 3, order := Some 0\<rparr>, base_plugin\<lparr>ident := 4\<rparr>,
                 base_plugin\<lparr>ident := 5, order := Some 1\<rparr>]) = 5"
  using sort_plugins_sorted_stable
    [of "[base_plugin\<lparr>ident := 1, order := Some 1\<rparr>, base_plugin\<lparr>ident := 2\<rparr>,
          base_plugin\<lparr>ident := 3, order := Some 0\<rparr>, base_plugin\<lparr>ident := 4\<rparr>,
          base_plugin\<lparr>ident := 5, order := Some 1\<rparr>]"]
  by (simp add: sort_plugins_def base_plugin_def)

section \<open>Validity\<close>

text \<open>
  What the code does for a class that derives from \<open>Validator\<close> or \<open>Extractor\<close> only:
  it is invalid exactly when both \<open>hosts\<close> and \<open>families\<close> are empty.
\<close>

lemma plugin_is_valid_validator_extractor:
  assumes "requires p = RequiresStr r"
    and "Validator \<in> set (bases p) \<or> Extractor \<in> set (bases p)"
    and "Selector \<notin> set (bases p)" and "Conformer \<notin> set (bases p)"
  shows "plugin_is_valid (PluginClass p) \<longleftrightarrow> \<not> (hosts p = [] \<and> families p = [])"
  using assms by (auto simp: plugin_is_valid_def mandatory_fields_def)

text \<open>
  C2: a Validator or an Extractor with empty \<open>hosts\<close> or empty \<open>families\<close> is to be
  invalid. The code accepts a Validator whose \<open>families\<close> is empty and whose \<open>hosts\<close> is
  not, and an Extractor whose \<open>hosts\<close> is empty and whose \<open>families\<close> is not.
\<close>

theorem plugin_is_valid_one_field_empty:
  "plugin_is_valid (PluginClass (base_plugin\<lparr>bases := [Validator], families := [],
                                              order := Some 1\<rparr>))
   \<and> plugin_is_valid (PluginClass (base_plugin\<lparr>bases := [Extractor], hosts := [],
                                                order := Some 2\<rparr>))"
  by (simp add: plugin_is_valid_def mandatory_fields_def base_plugin_def)

section \<open>Host compatibility\<close>

text \<open>
  C3 as stated fails: with an executable that \<open>current_host\<close> does not recognise,
  \<open>host_is_compatible\<close> raises \<open>ValueError\<close>, here for a plug-in whose \<open>hosts\<close> holds
  the wildcard.
\<close>

theorem host_is_compatible_raises:
  "host_is_compatible ''blender'' base_plugin
     = Inl (Exn ValueError (''Could not determine host from '' @ [CHR 0x22] @ ''blender'' @ [CHR 0x22]))"
  by (simp add: host_is_compatible_def current_host_def base_plugin_def sublist_code)

text \<open>
  C3, amended: when \<open>current_host\<close> detects a host, \<open>host_is_compatible\<close> returns
  whether the wildcard or that host is in \<open>hosts\<close>; when \<open>current_host\<close> raises, so does
  \<open>host_is_compatible\<close>, with the same exception; and \<open>current_host\<close> raises exactly
  when the executable's name holds none of the five host names.
\<close>

theorem host_is_compatible_detected:
  "(current_host exe = Inr h \<longrightarrow>
      host_is_compatible exe plugin = Inr (''*'' \<in> set (hosts plugin) \<or> h \<in> set (hosts plugin)))
   \<and> (current_host exe = Inl e \<longrightarrow> host_is_compatible exe plugin = Inl e)
   \<and> ((\<exists>e. current_host exe = Inl e) \<longleftrightarrow>
        \<not> (sublist ''python'' exe \<or> sublist ''maya'' exe \<or> sublist ''nuke'' exe
           \<or> sublist ''modo'' exe \<or> sublist ''houdini'' exe))"
  by (auto simp: host_is_compatible_def current_host_def Let_def)

theorem host_is_compatible_detected_witness:
  "host_is_compatible ''mayapy.exe'' (base_plugin\<lparr>hosts := [''maya'']\<rparr>) = Inr True
   \<and> host_is_compatible ''mayapy.exe'' (base_plugin\<lparr>hosts := [''nuke'']\<rparr>) = Inr False
   \<and> host_is_compatible ''blender'' (base_plugin\<lparr>hosts := [''nuke'']\<rparr>)
       = Inl (Exn ValueError (''Could not determine host from '' @ [CHR 0x22] @ ''blender'' @ [CHR 0x22]))"
proof -
  have maya: "current_host ''mayapy.exe'' = Inr ''maya''"
    by (simp add: current_host_def sublist_code)
  have blender: "current_host ''blender''
                   = Inl (Exn ValueError (''Could not determine host from '' @ [CHR 0x22] @ ''blender'' @ [CHR 0x22]))"
    by (simp add: current_host_def sublist_code)
  from host_is_compatible_detected
         [of "''mayapy.exe''" "''maya''" "base_plugin\<lparr>hosts := [''maya'']\<rparr>"] maya
  have A: "host_is_compatible ''mayapy.exe'' (base_plugin\<lparr>hosts := [''maya'']\<rparr>) = Inr True"
    by simp
  from host_is_compatible_detected
         [of "''mayapy.exe''" "''maya''" "base_plugin\<lparr>hosts := [''nuke'']\<rparr>"] maya
  have B: "host_is_compatible ''mayapy.exe'' (base_plugin\<lparr>hosts := [''nuke'']\<rparr>) = Inr False"
    by simp
  from host_is_compatible_detected
         [of "''blender''" _ "base_plugin\<lparr>hosts := [''nuke'']\<rparr>"
             "Exn ValueError (''Could not determine host from '' @ [CHR 0x22] @ ''blender'' @ [CHR 0x22])"] blender
  have C: "host_is_compatible ''blender'' (base_plugin\<lparr>hosts := [''nuke'']\<rparr>)
       = Inl (Exn ValueError (''Could not determine host from '' @ [CHR 0x22] @ ''blender'' @ [CHR 0x22]))"
    by simp
  from A B C show ?thesis by simp
qed

section \<open>The execution engine\<close>

lemma ensure_results_absent:
  "data_store c ''results'' = None \<Longrightarrow> ensure_results c = set_data ''results'' (ResultList []) c"
  by (simp add: ensure_results_def dom_def)

lemma ensure_results_present:
  "data_store c ''results'' = Some v \<Longrightarrow> ensure_results c = c"
  by (auto simp add: ensure_results_def dom_def)

lemma process_not_legacy:
  "\<not> has_process_instance P \<Longrightarrow> \<not> has_process_context P \<Longrightarrow>
   process legacy reg clock P c inst = process_inner reg clock P c inst"
  by (simp add: process_def)

lemma raising_fields:
  "init (raising e) = None" "\<not> has_process_instance (raising e)"
  "\<not> has_process_context (raising e)"
  by (simp_all add: raising_def plugin.extend_def)








text \<open>
  C9: for a plug-in class without the legacy method names whose constructor raises
  \<open>e\<close>, \<open>process\<close> raises \<open>e\<close>. The context it leaves differs from the one it got only
  in the \<^verbatim>\<open>"results"\<close> entry, which is the empty list if there was none and is
  unchanged otherwise: no Result is returned or appended.
\<close>

theorem process_constructor_raises:
  assumes "\<not> has_process_instance P" and "\<not> has_process_context P"
    and "init P = Some e"
  shows "process legacy reg clock P c inst = (Inl e, ensure_results c)
         \<and> data ''results'' (ensure_results c)
             = (case data ''results'' c of None \<Rightarrow> Some (ResultList []) | Some v \<Rightarrow> Some v)
         \<and> members (ensure_results c) = members c
         \<and> (\<forall>k. k \<noteq> ''results'' \<longrightarrow> data k (ensure_results c) = data k c)"
proof -
  have "process legacy reg clock P c inst = (Inl e, ensure_results c)"
    using assms by (simp add: process_not_legacy process_inner_def Let_def)
  moreover have "data ''results'' (ensure_results c)
             = (case data ''results'' c of None \<Rightarrow> Some (ResultList []) | Some v \<Rightarrow> Some v)"
    by (cases "data_store c ''results''")
       (simp_all add: ensure_results_absent ensure_results_present data_def set_data_def)
  moreover have "members (ensure_results c) = members c"
    by (simp add: ensure_results_def set_data_def)
  moreover have "\<forall>k. k \<noteq> ''results'' \<longrightarrow> data k (ensure_results c) = data k c"
    by (simp add: ensure_results_def set_data_def data_def)
  ultimately show ?thesis by simp
qed

theorem process_constructor_raises_witness:
  "process no_legacy Map.empty (0, 1)
      ((raising (Exn RuntimeError ''boom''))\<lparr>init := Some (Exn TypeError ''__init__'')\<rparr>)
      empty_context None
    = (Inl (Exn TypeError ''__init__''), set_data ''results'' (ResultList []) empty_context)
   \<and> data ''results'' (set_data ''results'' (ResultList []) empty_context) = Some (ResultList [])"
  using process_constructor_raises [of
      "(raising (Exn RuntimeError ''boom''))\<lparr>init := Some (Exn TypeError ''__init__'')\<rparr>"
      "Exn TypeError ''__init__''" no_legacy Map.empty "(0, 1)" empty_context None]
  by (simp add: raising_fields ensure_results_def empty_context_def data_def set_data_def)

section \<open>Discovery and the registry\<close>

lemma keyed_by_name_empty: "keyed_by_name []"
  by (simp add: keyed_by_name_def)


















lemma discover_no_arguments:
  "discover e rp reg None None None =
     (case scan_paths e pattern_keys
             (plugin_paths rp (configured_paths e) (environment_paths e)) reg of
        Inl err \<Rightarrow> Inl err
      | Inr discovered \<Rightarrow>
         (case filter_discovered e pattern_keys None discovered [] of
            Inl err \<Rightarrow> Inl err
          | Inr plugins \<Rightarrow> Inr (sort_plugins plugins)))"
  by (simp add: discover_def Let_def)


lemma plugin_paths_eval: "plugin_paths [] [''/plugins''] [] = [''/plugins'']"
  by (simp add: plugin_paths_def)

lemma current_host_python: "current_host ''python'' = Inr ''python''"
  by (simp add: current_host_def)

lemma host_python_wildcard:
  "''*'' \<in> set (hosts p) \<Longrightarrow> host_is_compatible ''python'' p = Inr True"
  by (simp add: host_is_compatible_def current_host_python)


lemma discover_example:
  "discover (scanning_env (Inr [(''_hidden'', PluginClass base_plugin),
                                 (''CollectScene'', PluginClass selector1)])) []
     [(''ValidateNaming'', PluginClass validator1)] None None None
   = Inr [selector1, validator1]"
  by (simp add: discover_no_arguments plugin_paths_eval scanning_env_def pattern_keys_def
      types_def plugin_is_valid_def mandatory_fields_def version_is_compatible_def
      host_python_wildcard sort_plugins_def base_plugin_def validator1_def selector1_def)


end
